theory Spec2Isabelle
  imports Complex_Main
begin

section \<open>The recursive second-order filter\<close>

text \<open>
  A shallow embedding of the class \<^verbatim>\<open>RecursiveConvolution\<close>, which the repository
  defines twice: in \<^verbatim>\<open>RecursiveConvolution.py\<close> (lines 4-74) and in \<^verbatim>\<open>cart.py\<close>
  (lines 272-342).

  The numbers are Python floats (the docstrings give every parameter as \<^verbatim>\<open>float\<close>). A
  float is modelled by the real number it stands for, so rounding is idealised. The
  exceptions are not idealised: every raise of the two methods is a branch of the model.
  These are the true division by zero (\<^verbatim>\<open>ZeroDivisionError\<close>), the explicit
  \<^verbatim>\<open>raise ValueError\<close> of the guard in \<^verbatim>\<open>calculate_output\<close>, arithmetic on an attribute
  that is still \<^verbatim>\<open>None\<close> (\<^verbatim>\<open>TypeError\<close>), and the range errors of floats: \<^verbatim>\<open>math.exp\<close> and
  \<^verbatim>\<open>**\<close> raise \<^verbatim>\<open>OverflowError\<close> when their result is too large for a double, and
  \<^verbatim>\<open>math.cos\<close> and \<^verbatim>\<open>math.sin\<close> raise \<^verbatim>\<open>ValueError\<close> on an infinite argument, that is
  when the product passed to them has overflowed. The operators \<^verbatim>\<open>+\<close>, \<^verbatim>\<open>-\<close>, \<^verbatim>\<open>*\<close> and
  \<^verbatim>\<open>/\<close> (by a non-zero divisor) never raise on floats; where Python would give an
  infinity for them the model keeps the real value.
\<close>

subsection \<open>Data\<close>

datatype error = ZeroDivisionError | ValueError | TypeError | OverflowError

text \<open>
  The attributes that \<^verbatim>\<open>__init__\<close> creates, in its order. An attribute that starts as
  \<^verbatim>\<open>None\<close> is an option; the three history values start as the number 0.
\<close>

record RecursiveConvolution =
  g0 :: "real option"
  g1 :: "real option"
  g2 :: "real option"
  alpha :: "real option"
  omega :: "real option"
  prev_y1 :: real
  prev_y2 :: real
  prev_x :: real
  dt :: "real option"

subsection \<open>Python's arithmetic\<close>

text \<open>Python's \<^verbatim>\<open>x / y\<close> on numbers: it raises when the divisor is zero.\<close>

definition truediv :: "real \<Rightarrow> real \<Rightarrow> error + real" where
  "truediv x y = (if y = 0 then Inl ZeroDivisionError else Inr (x / y))"

text \<open>
  The range of a double. The largest double is \<open>2^1024 - 2^971\<close>; under rounding to
  nearest a result of magnitude \<open>2^1024 - 2^970\<close> or more becomes an infinity.
\<close>

definition overflows :: "real \<Rightarrow> bool" where
  "overflows v \<longleftrightarrow> 2 ^ 1024 - 2 ^ 970 \<le> \<bar>v\<bar>"

text \<open>
  \<^verbatim>\<open>math.exp(x)\<close> raises \<^verbatim>\<open>OverflowError\<close> (math range error) when the result overflows;
  an underflow gives 0 and raises nothing. (At an argument that has itself overflowed to
  plus infinity Python returns infinity; the model has no infinity to return and raises
  there as well. This concerns only \<open>alpha dt\<close> of magnitude \<open>2^1024\<close> or so.)
\<close>

definition math_exp :: "real \<Rightarrow> error + real" where
  "math_exp x = (if overflows (exp x) then Inl OverflowError else Inr (exp x))"

text \<open>
  \<^verbatim>\<open>math.cos(x)\<close> and \<^verbatim>\<open>math.sin(x)\<close> raise \<^verbatim>\<open>ValueError\<close> (math domain error) when
  \<open>x\<close> is an infinity, which a product of two finite floats is when it overflows.
\<close>

definition math_cos :: "real \<Rightarrow> error + real" where
  "math_cos x = (if overflows x then Inl ValueError else Inr (cos x))"

definition math_sin :: "real \<Rightarrow> error + real" where
  "math_sin x = (if overflows x then Inl ValueError else Inr (sin x))"

text \<open>
  \<^verbatim>\<open>x ** n\<close> on a float raises \<^verbatim>\<open>OverflowError\<close> (numerical result out of range) when
  the power overflows.
\<close>

definition float_pow :: "real \<Rightarrow> nat \<Rightarrow> error + real" where
  "float_pow x n = (if overflows (x ^ n) then Inl OverflowError else Inr (x ^ n))"

subsection \<open>The class of RecursiveConvolution.py\<close>

text \<open>\<^verbatim>\<open>__init__\<close> (RecursiveConvolution.py, lines 5-17).\<close>

definition init :: RecursiveConvolution where
  "init = \<lparr>g0 = None, g1 = None, g2 = None, alpha = None, omega = None,
           prev_y1 = 0, prev_y2 = 0, prev_x = 0, dt = None\<rparr>"

text \<open>
  \<^verbatim>\<open>update_parameters(self, b, m, k, dt)\<close> (RecursiveConvolution.py, lines 19-41).
  The method is a sequence of four attribute assignments followed by the assignment of
  \<^verbatim>\<open>self.dt\<close>; an exception leaves the assignments made before it in place, so every
  error branch returns the state as it is at that point. The operations that can raise
  are taken in Python's evaluation order: in line 31 \<^verbatim>\<open>k / m\<close> before
  \<^verbatim>\<open>self.alpha ** 2\<close>; in lines 37-38 \<^verbatim>\<open>b / m\<close>, \<^verbatim>\<open>math.exp\<close>, \<^verbatim>\<open>math.cos\<close>, then
  \<^verbatim>\<open>b ** 2\<close>, the two divisions, \<^verbatim>\<open>math.exp\<close> and \<^verbatim>\<open>math.sin\<close>. The argument of
  \<^verbatim>\<open>math.sqrt\<close> is \<^verbatim>\<open>max(0, ...)\<close>, which is never negative, so the square root has no
  error branch. The reads of \<^verbatim>\<open>self.alpha\<close> and \<^verbatim>\<open>self.omega\<close> after their assignment
  are the values \<open>a\<close> and \<open>w\<close> just stored. The parameter \<^verbatim>\<open>dt\<close> is written \<open>T\<close>,
  since \<open>dt\<close> is the field.
\<close>

definition update_parameters ::
  "real \<Rightarrow> real \<Rightarrow> real \<Rightarrow> real \<Rightarrow> RecursiveConvolution
     \<Rightarrow> (error + unit) \<times> RecursiveConvolution" where
  "update_parameters b m k T s =
    (case truediv b (2 * m) of
       Inl e \<Rightarrow> (Inl e, s)
     | Inr a \<Rightarrow>
        let s1 = s\<lparr>alpha := Some a\<rparr> in
        (case truediv k m of
           Inl e \<Rightarrow> (Inl e, s1)
         | Inr km \<Rightarrow>
        (case float_pow a 2 of
           Inl e \<Rightarrow> (Inl e, s1)
         | Inr a2 \<Rightarrow>
            let w = sqrt (max 0 (km - a2));
                s2 = s1\<lparr>omega := Some w\<rparr> in
            (case truediv b m of
               Inl e \<Rightarrow> (Inl e, s2)
             | Inr G0 \<Rightarrow>
                let s3 = s2\<lparr>g0 := Some G0\<rparr> in
                (case truediv b m of
                   Inl e \<Rightarrow> (Inl e, s3)
                 | Inr bm \<Rightarrow>
                (case math_exp (- a * T) of
                   Inl e \<Rightarrow> (Inl e, s3)
                 | Inr e1 \<Rightarrow>
                (case math_cos (w * T) of
                   Inl e \<Rightarrow> (Inl e, s3)
                 | Inr c1 \<Rightarrow>
                (case float_pow b 2 of
                   Inl e \<Rightarrow> (Inl e, s3)
                 | Inr b2 \<Rightarrow>
                (case truediv b2 (2 * m) of
                   Inl e \<Rightarrow> (Inl e, s3)
                 | Inr b2m \<Rightarrow>
                (case truediv (k - b2m) (m * w) of
                   Inl e \<Rightarrow> (Inl e, s3)
                 | Inr c \<Rightarrow>
                (case math_exp (- a * T) of
                   Inl e \<Rightarrow> (Inl e, s3)
                 | Inr e2 \<Rightarrow>
                (case math_sin (w * T) of
                   Inl e \<Rightarrow> (Inl e, s3)
                 | Inr s1' \<Rightarrow>
                    let G1 = bm * e1 * c1 + c * e2 * s1';
                        s4 = s3\<lparr>g1 := Some G1\<rparr>
                    in (Inr (), s4\<lparr>dt := Some T\<rparr>)))))))))))))"

text \<open>
  \<^verbatim>\<open>calculate_output(self, x)\<close> (RecursiveConvolution.py, lines 43-74). The guard
  tests \<^verbatim>\<open>self.g1\<close> and \<^verbatim>\<open>self.dt\<close> only. Past the guard, line 57 negates
  \<^verbatim>\<open>self.alpha\<close> and calls \<^verbatim>\<open>math.exp\<close>, line 58 multiplies \<^verbatim>\<open>self.omega\<close> and calls
  \<^verbatim>\<open>math.cos\<close>, line 59 calls \<^verbatim>\<open>math.exp\<close> again, and the expression for \<open>y\<close>
  multiplies \<^verbatim>\<open>self.g0\<close>; arithmetic on a \<^verbatim>\<open>None\<close> raises \<^verbatim>\<open>TypeError\<close>. All of these
  come before any attribute is assigned: the three history assignments are last.
\<close>

definition calculate_output ::
  "real \<Rightarrow> RecursiveConvolution \<Rightarrow> (error + real) \<times> RecursiveConvolution" where
  "calculate_output x s =
    (case g1 s of
       None \<Rightarrow> (Inl ValueError, s)
     | Some G1 \<Rightarrow>
    (case dt s of
       None \<Rightarrow> (Inl ValueError, s)
     | Some T \<Rightarrow>
    (case alpha s of
       None \<Rightarrow> (Inl TypeError, s)
     | Some a \<Rightarrow>
    (case math_exp (- a * T) of
       Inl e \<Rightarrow> (Inl e, s)
     | Inr exp_neg_alpha_dt \<Rightarrow>
    (case omega s of
       None \<Rightarrow> (Inl TypeError, s)
     | Some w \<Rightarrow>
    (case math_cos (w * T) of
       Inl e \<Rightarrow> (Inl e, s)
     | Inr cos_term \<Rightarrow>
    (case math_exp (- 2 * a * T) of
       Inl e \<Rightarrow> (Inl e, s)
     | Inr exp_neg_2alpha_dt \<Rightarrow>
    (case g0 s of
       None \<Rightarrow> (Inl TypeError, s)
     | Some G0 \<Rightarrow>
        let y = 2 * exp_neg_alpha_dt * cos_term * prev_y1 s
                - exp_neg_2alpha_dt * prev_y2 s
                + T * G0 * x
                + T * (G1 - 2 * exp_neg_alpha_dt * G0 * cos_term) * prev_x s
        in (Inr y, s\<lparr>prev_y2 := prev_y1 s, prev_y1 := y, prev_x := x\<rparr>)))))))))"

subsection \<open>The class of cart.py\<close>

text \<open>
  The second definition of the class, translated from \<^verbatim>\<open>cart.py\<close> on its own:
  \<^verbatim>\<open>__init__\<close> (lines 273-285), \<^verbatim>\<open>update_parameters\<close> (lines 287-309) and
  \<^verbatim>\<open>calculate_output\<close> (lines 311-342). Its \<^verbatim>\<open>__init__\<close> creates the same nine
  attributes, so its states are values of the same record; \<^verbatim>\<open>cart.py\<close> imports the same
  \<^verbatim>\<open>math\<close> and rebinds neither it nor \<^verbatim>\<open>max\<close>.
\<close>

definition cart_init :: RecursiveConvolution where
  "cart_init = \<lparr>g0 = None, g1 = None, g2 = None, alpha = None, omega = None,
                prev_y1 = 0, prev_y2 = 0, prev_x = 0, dt = None\<rparr>"

definition cart_update_parameters ::
  "real \<Rightarrow> real \<Rightarrow> real \<Rightarrow> real \<Rightarrow> RecursiveConvolution
     \<Rightarrow> (error + unit) \<times> RecursiveConvolution" where
  "cart_update_parameters b m k T s =
    (case truediv b (2 * m) of
       Inl e \<Rightarrow> (Inl e, s)
     | Inr a \<Rightarrow>
        let s1 = s\<lparr>alpha := Some a\<rparr> in
        (case truediv k m of
           Inl e \<Rightarrow> (Inl e, s1)
         | Inr km \<Rightarrow>
        (case float_pow a 2 of
           Inl e \<Rightarrow> (Inl e, s1)
         | Inr a2 \<Rightarrow>
            let w = sqrt (max 0 (km - a2));
                s2 = s1\<lparr>omega := Some w\<rparr> in
            (case truediv b m of
               Inl e \<Rightarrow> (Inl e, s2)
             | Inr G0 \<Rightarrow>
                let s3 = s2\<lparr>g0 := Some G0\<rparr> in
                (case truediv b m of
                   Inl e \<Rightarrow> (Inl e, s3)
                 | Inr bm \<Rightarrow>
                (case math_exp (- a * T) of
                   Inl e \<Rightarrow> (Inl e, s3)
                 | Inr e1 \<Rightarrow>
                (case math_cos (w * T) of
                   Inl e \<Rightarrow> (Inl e, s3)
                 | Inr c1 \<Rightarrow>
                (case float_pow b 2 of
                   Inl e \<Rightarrow> (Inl e, s3)
                 | Inr b2 \<Rightarrow>
                (case truediv b2 (2 * m) of
                   Inl e \<Rightarrow> (Inl e, s3)
                 | Inr b2m \<Rightarrow>
                (case truediv (k - b2m) (m * w) of
                   Inl e \<Rightarrow> (Inl e, s3)
                 | Inr c \<Rightarrow>
                (case math_exp (- a * T) of
                   Inl e \<Rightarrow> (Inl e, s3)
                 | Inr e2 \<Rightarrow>
                (case math_sin (w * T) of
                   Inl e \<Rightarrow> (Inl e, s3)
                 | Inr s1' \<Rightarrow>
                    let G1 = bm * e1 * c1 + c * e2 * s1';
                        s4 = s3\<lparr>g1 := Some G1\<rparr>
                    in (Inr (), s4\<lparr>dt := Some T\<rparr>)))))))))))))"

definition cart_calculate_output ::
  "real \<Rightarrow> RecursiveConvolution \<Rightarrow> (error + real) \<times> RecursiveConvolution" where
  "cart_calculate_output x s =
    (case g1 s of
       None \<Rightarrow> (Inl ValueError, s)
     | Some G1 \<Rightarrow>
    (case dt s of
       None \<Rightarrow> (Inl ValueError, s)
     | Some T \<Rightarrow>
    (case alpha s of
       None \<Rightarrow> (Inl TypeError, s)
     | Some a \<Rightarrow>
    (case math_exp (- a * T) of
       Inl e \<Rightarrow> (Inl e, s)
     | Inr exp_neg_alpha_dt \<Rightarrow>
    (case omega s of
       None \<Rightarrow> (Inl TypeError, s)
     | Some w \<Rightarrow>
    (case math_cos (w * T) of
       Inl e \<Rightarrow> (Inl e, s)
     | Inr cos_term \<Rightarrow>
    (case math_exp (- 2 * a * T) of
       Inl e \<Rightarrow> (Inl e, s)
     | Inr exp_neg_2alpha_dt \<Rightarrow>
    (case g0 s of
       None \<Rightarrow> (Inl TypeError, s)
     | Some G0 \<Rightarrow>
        let y = 2 * exp_neg_alpha_dt * cos_term * prev_y1 s
                - exp_neg_2alpha_dt * prev_y2 s
                + T * G0 * x
                + T * (G1 - 2 * exp_neg_alpha_dt * G0 * cos_term) * prev_x s
        in (Inr y, s\<lparr>prev_y2 := prev_y1 s, prev_y1 := y, prev_x := x\<rparr>)))))))))"

subsection \<open>States in which an update has succeeded\<close>

text \<open>
  The states of a filter on which \<^verbatim>\<open>update_parameters\<close> has returned normally at least
  once: the state right after such a return, and every state that later calls of either
  method lead to, whether those calls return or raise (the caller may catch the
  exception and go on using the object).
\<close>

inductive initialized :: "RecursiveConvolution \<Rightarrow> bool" where
  first_update: "update_parameters b m k T s = (Inr (), s') \<Longrightarrow> initialized s'"
| later_update: "initialized s \<Longrightarrow> initialized (snd (update_parameters b m k T s))"
| later_output: "initialized s \<Longrightarrow> initialized (snd (calculate_output x s))"

text \<open>
  All five attributes that \<^verbatim>\<open>calculate_output\<close> reads are numbers. The guard of
  \<^verbatim>\<open>calculate_output\<close> tests two of them; the other three are set by the same call
  of \<^verbatim>\<open>update_parameters\<close> that sets those two.
\<close>

definition parameters_set :: "RecursiveConvolution \<Rightarrow> bool" where
  "parameters_set s \<longleftrightarrow>
     alpha s \<noteq> None \<and> omega s \<noteq> None \<and> g0 s \<noteq> None \<and> g1 s \<noteq> None \<and> dt s \<noteq> None"

section \<open>Properties\<close>

subsection \<open>The range of math.exp\<close>

text \<open>
  \<open>exp 600\<close> is below the overflow threshold and \<open>exp 800\<close> is above it (the exact
  boundary is near 709.78).
\<close>

lemma exp_600_small: "exp (600::real) < 2 ^ 1024 - 2 ^ 970"
proof -
  have "exp (5::real) = exp 1 ^ 5"
    using exp_of_nat_mult [of 5 "1::real"] by simp
  also have "\<dots> \<le> (3::real) ^ 5"
    by (rule power_mono [OF exp_le]) simp
  also have "\<dots> \<le> 2 ^ 8" by simp
  finally have e5: "exp (5::real) \<le> 2 ^ 8" .
  have "exp (600::real) = exp 5 ^ 120"
    using exp_of_nat_mult [of 120 "5::real"] by simp
  also have "\<dots> \<le> ((2::real) ^ 8) ^ 120"
    by (rule power_mono [OF e5]) simp
  also have "\<dots> = 2 ^ 960" by (simp only: power_mult [symmetric]) simp
  also have "\<dots> < (2::real) ^ 1024 - 2 ^ 970" by simp
  finally show ?thesis .
qed

lemma exp_800_large: "(2::real) ^ 1024 - 2 ^ 970 \<le> exp 800"
proof -
  have e: "(5 / 2 :: real) \<le> exp 1"
    using exp_lower_Taylor_quadratic [of "1::real"] by simp
  have "(2::real) ^ 9 \<le> (5 / 2) ^ 7" by (simp add: power_divide)
  also have "\<dots> \<le> exp 1 ^ 7"
    by (rule power_mono [OF e]) simp
  also have "\<dots> = exp (7::real)"
    using exp_of_nat_mult [of 7 "1::real"] by simp
  finally have e7: "(2::real) ^ 9 \<le> exp 7" .
  have "(2::real) ^ 1024 - 2 ^ 970 \<le> 2 ^ 1026" by simp
  also have "\<dots> = ((2::real) ^ 9) ^ 114" by (simp only: power_mult [symmetric]) simp
  also have "\<dots> \<le> exp 7 ^ 114"
    by (rule power_mono [OF e7]) simp
  also have "\<dots> = exp (798::real)"
    using exp_of_nat_mult [of 114 "7::real"] by simp
  also have "\<dots> \<le> exp (800::real)" by simp
  finally show ?thesis .
qed

lemma exp_in_range: "x \<le> 600 \<Longrightarrow> \<not> overflows (exp x)"
proof -
  assume "x \<le> 600"
  then have "exp x \<le> exp 600" by simp
  then have "exp x < 2 ^ 1024 - 2 ^ 970"
    by (rule order_le_less_trans) (rule exp_600_small)
  then show ?thesis
    unfolding overflows_def by (simp only: abs_of_pos [OF exp_gt_zero] not_le)
qed

lemma exp_out_of_range: "800 \<le> x \<Longrightarrow> overflows (exp x)"
proof -
  assume "800 \<le> x"
  then have "exp 800 \<le> exp x" by simp
  with exp_800_large have "2 ^ 1024 - 2 ^ 970 \<le> exp x" by (rule order_trans)
  then show ?thesis
    unfolding overflows_def by (simp only: abs_of_pos [OF exp_gt_zero])
qed

lemma overflows_minus [simp]: "overflows (- v) = overflows v"
  by (simp add: overflows_def)

lemmas arith_defs = truediv_def math_exp_def math_cos_def math_sin_def float_pow_def

subsection \<open>What update_parameters computes\<close>

text \<open>
  The method returns normally exactly when the mass is not zero, the argument of the
  square root is positive (so that \<open>omega\<close> is not zero), and none of \<^verbatim>\<open>alpha ** 2\<close>,
  \<^verbatim>\<open>b ** 2\<close>, \<^verbatim>\<open>math.exp(-alpha * dt)\<close> and the product \<^verbatim>\<open>omega * dt\<close> overflows.
\<close>

lemma update_parameters_succeeds_iff:
  "fst (update_parameters b m k T s) = Inr () \<longleftrightarrow>
     m \<noteq> 0 \<and> (b / (2 * m))\<^sup>2 < k / m
     \<and> \<not> overflows ((b / (2 * m))\<^sup>2) \<and> \<not> overflows (b\<^sup>2)
     \<and> \<not> overflows (exp (- (b / (2 * m)) * T))
     \<and> \<not> overflows (sqrt (max 0 (k / m - (b / (2 * m))\<^sup>2)) * T)"
  by (auto simp: update_parameters_def arith_defs Let_def max_def split: if_splits)

lemma update_parameters_result:
  assumes "update_parameters b m k T s = (Inr (), s')"
  shows "s' = s\<lparr>alpha := Some (b / (2 * m)),
                omega := Some (sqrt (max 0 (k / m - (b / (2 * m))\<^sup>2))),
                g0 := Some (b / m),
                g1 := Some (b / m * exp (- (b / (2 * m)) * T)
                              * cos (sqrt (max 0 (k / m - (b / (2 * m))\<^sup>2)) * T)
                            + (k - b\<^sup>2 / (2 * m)) / (m * sqrt (max 0 (k / m - (b / (2 * m))\<^sup>2)))
                              * exp (- (b / (2 * m)) * T)
                              * sin (sqrt (max 0 (k / m - (b / (2 * m))\<^sup>2)) * T)),
                dt := Some T\<rparr>"
  using assms
  by (auto simp: update_parameters_def arith_defs Let_def split: if_splits)

subsection \<open>The attributes stay set\<close>

lemma update_keeps_parameters_set:
  "parameters_set s \<Longrightarrow> parameters_set (snd (update_parameters b m k T s))"
  by (auto simp: parameters_set_def update_parameters_def arith_defs Let_def)

lemma output_keeps_parameters_set:
  "parameters_set s \<Longrightarrow> parameters_set (snd (calculate_output x s))"
  by (auto simp: parameters_set_def calculate_output_def arith_defs Let_def)

lemma initialized_parameters_set: "initialized s \<Longrightarrow> parameters_set s"
proof (induction rule: initialized.induct)
  case (first_update b m k T s s')
  from update_parameters_result [OF this] show ?case
    by (simp add: parameters_set_def)
next
  case (later_update s b m k T)
  from later_update.IH show ?case by (rule update_keeps_parameters_set)
next
  case (later_output s x)
  from later_output.IH show ?case by (rule output_keeps_parameters_set)
qed

text \<open>
  With all five attributes set, and \<^verbatim>\<open>math.exp\<close> and \<^verbatim>\<open>math.cos\<close> in range,
  \<^verbatim>\<open>calculate_output\<close> returns the value of its expression and shifts the history.
\<close>

lemma calculate_output_in_range:
  assumes "alpha s = Some a" "omega s = Some w" "g0 s = Some G0" "g1 s = Some G1"
    "dt s = Some T"
    and "\<not> overflows (exp (- a * T))" "\<not> overflows (w * T)"
    "\<not> overflows (exp (- 2 * a * T))"
  shows "calculate_output x s =
    (Inr (2 * exp (- a * T) * cos (w * T) * prev_y1 s - exp (- 2 * a * T) * prev_y2 s
          + T * G0 * x + T * (G1 - 2 * exp (- a * T) * G0 * cos (w * T)) * prev_x s),
     s\<lparr>prev_y2 := prev_y1 s,
       prev_y1 := 2 * exp (- a * T) * cos (w * T) * prev_y1 s
                  - exp (- 2 * a * T) * prev_y2 s
                  + T * G0 * x + T * (G1 - 2 * exp (- a * T) * G0 * cos (w * T)) * prev_x s,
       prev_x := x\<rparr>)"
  using assms by (simp add: calculate_output_def arith_defs Let_def)

subsection \<open>The guard of calculate_output\<close>

text \<open>
  C6. On a freshly constructed filter, \<^verbatim>\<open>calculate_output(x)\<close> raises the
  \<^verbatim>\<open>ValueError\<close> of the guard for every input \<open>x\<close>, returns no value, and leaves the
  state exactly as constructed; the object is therefore still fresh for the next call,
  which fails in the same way.
\<close>

theorem fresh_calculate_output_raises:
  "calculate_output x init = (Inl ValueError, init)"
  by (simp add: calculate_output_def init_def)

subsection \<open>The recursion\<close>

text \<open>
  C1, as stated: in every state in which \<^verbatim>\<open>update_parameters\<close> has succeeded once,
  \<^verbatim>\<open>calculate_output(x)\<close> returns the value of the recursion. It fails after
  \<^verbatim>\<open>update_parameters(-800, 1, 200000, 1)\<close> on a fresh filter. That call succeeds and
  stores \<open>alpha = -400\<close>, \<open>omega = 200\<close>, \<open>dt = 1\<close>; the next \<^verbatim>\<open>calculate_output(1)\<close>
  gets past \<^verbatim>\<open>math.exp(400)\<close> and \<^verbatim>\<open>math.cos(200)\<close> and raises \<^verbatim>\<open>OverflowError\<close> at
  \<^verbatim>\<open>math.exp(-2 * self.alpha * self.dt)\<close>, which is \<^verbatim>\<open>math.exp(800)\<close>. No value is
  returned and the state is unchanged.
\<close>

theorem calculate_output_overflows_after_update:
  "initialized (snd (update_parameters (- 800) 1 200000 1 init))
   \<and> fst (update_parameters (- 800) 1 200000 1 init) = Inr ()
   \<and> calculate_output 1 (snd (update_parameters (- 800) 1 200000 1 init))
       = (Inl OverflowError, snd (update_parameters (- 800) 1 200000 1 init))"
proof -
  have r: "sqrt 40000 = 200"
    using real_sqrt_abs [of "200::real"] by simp
  have e: "\<not> overflows (exp 400)" "overflows (exp 800)"
    by (simp_all add: exp_in_range exp_out_of_range)
  have n: "\<not> overflows 160000" "\<not> overflows 640000" "\<not> overflows 200"
    by (simp_all add: overflows_def)
  have u: "update_parameters (- 800) 1 200000 1 init =
    (Inr (), \<lparr>g0 = Some (- 800),
              g1 = Some (- 800 * exp 400 * cos 200 + - 600 * exp 400 * sin 200),
              g2 = None, alpha = Some (- 400), omega = Some 200,
              prev_y1 = 0, prev_y2 = 0, prev_x = 0, dt = Some 1\<rparr>)"
    by (simp add: update_parameters_def arith_defs Let_def init_def r e n)
  have "update_parameters (- 800) 1 200000 1 init
          = (Inr (), snd (update_parameters (- 800) 1 200000 1 init))"
    by (simp add: u)
  then have i: "initialized (snd (update_parameters (- 800) 1 200000 1 init))"
    by (rule first_update)
  have c: "calculate_output 1 (snd (update_parameters (- 800) 1 200000 1 init))
       = (Inl OverflowError, snd (update_parameters (- 800) 1 200000 1 init))"
    by (simp add: u calculate_output_def arith_defs e n)
  from i u c show ?thesis by simp
qed

text \<open>
  C1, amended. In every state of a filter on which \<^verbatim>\<open>update_parameters\<close> has succeeded
  at least once, the five parameters are set; and whenever \<^verbatim>\<open>math.exp\<close> and \<^verbatim>\<open>math.cos\<close>
  are in range for them, that is neither \<open>exp (- alpha dt)\<close> nor \<open>exp (- 2 alpha dt)\<close>
  nor the product \<open>omega dt\<close> overflows a double, the call \<^verbatim>\<open>calculate_output(x)\<close>
  returns, for every input \<open>x\<close>,
  \<open>2 decay cosTerm prev_y1 - decay2 prev_y2 + dt g0 x + dt (g1 - 2 decay g0 cosTerm) prev_x\<close>
  where \<open>decay = exp (- alpha dt)\<close>, \<open>cosTerm = cos (omega dt)\<close> and
  \<open>decay2 = exp (- 2 alpha dt)\<close> are computed from the values of \<open>alpha\<close>,
  \<open>omega\<close> and \<open>dt\<close> stored at the time of the call.
\<close>

theorem calculate_output_recursion_in_range:
  assumes "initialized s"
  shows "\<exists>a w G0 G1 T.
           alpha s = Some a \<and> omega s = Some w \<and> g0 s = Some G0 \<and> g1 s = Some G1
           \<and> dt s = Some T
           \<and> (\<not> overflows (exp (- a * T)) \<and> \<not> overflows (w * T)
                \<and> \<not> overflows (exp (- 2 * a * T)) \<longrightarrow>
              (let decay = exp (- a * T); cosTerm = cos (w * T); decay2 = exp (- 2 * a * T)
               in fst (calculate_output x s)
                  = Inr (2 * decay * cosTerm * prev_y1 s - decay2 * prev_y2 s + T * G0 * x
                         + T * (G1 - 2 * decay * G0 * cosTerm) * prev_x s)))"
proof -
  from initialized_parameters_set [OF assms] obtain a w G0 G1 T
    where f: "alpha s = Some a" "omega s = Some w" "g0 s = Some G0" "g1 s = Some G1"
      "dt s = Some T"
    unfolding parameters_set_def by auto
  have "fst (calculate_output x s)
      = Inr (2 * exp (- a * T) * cos (w * T) * prev_y1 s - exp (- 2 * a * T) * prev_y2 s
             + T * G0 * x + T * (G1 - 2 * exp (- a * T) * G0 * cos (w * T)) * prev_x s)"
    if "\<not> overflows (exp (- a * T))" "\<not> overflows (w * T)"
      "\<not> overflows (exp (- 2 * a * T))"
    using calculate_output_in_range [OF f that] by simp
  with f show ?thesis by (simp add: Let_def)
qed

text \<open>
  The filter after \<^verbatim>\<open>update_parameters(2, 1, 2, 1)\<close> and \<^verbatim>\<open>calculate_output(5)\<close> has
  \<open>alpha = 1\<close>, \<open>omega = 1\<close>, \<open>g0 = 2\<close>, \<open>g1 = 2 exp (- 1) cos 1\<close>, \<open>dt = 1\<close> and
  the history \<open>prev_y1 = 10\<close>, \<open>prev_x = 5\<close>. Its next output, for the input 3, is
  \<open>2 exp (- 1) cos 1 * 10 + 2 * 3 + (2 exp (- 1) cos 1 - 4 exp (- 1) cos 1) * 5\<close>,
  that is \<open>10 exp (- 1) cos 1 + 6\<close>.
\<close>

theorem calculate_output_recursion_in_range_witness:
  "initialized (snd (calculate_output 5 (snd (update_parameters 2 1 2 1 init))))
   \<and> \<not> overflows (exp (- 1 * 1)) \<and> \<not> overflows (1 * 1) \<and> \<not> overflows (exp (- 2 * 1 * 1))
   \<and> fst (calculate_output 3 (snd (calculate_output 5 (snd (update_parameters 2 1 2 1 init)))))
       = Inr (10 * exp (- 1) * cos 1 + 6)"
proof -
  have n: "\<not> overflows (exp (- 1))" "\<not> overflows (exp (- 2))" "\<not> overflows 1"
    "\<not> overflows 4"
    by (simp_all add: exp_in_range) (simp_all add: overflows_def)
  have u: "update_parameters 2 1 2 1 init =
    (Inr (), \<lparr>g0 = Some 2, g1 = Some (2 * exp (- 1) * cos 1), g2 = None, alpha = Some 1,
             omega = Some 1, prev_y1 = 0, prev_y2 = 0, prev_x = 0, dt = Some 1\<rparr>)"
    by (simp add: update_parameters_def arith_defs Let_def init_def n)
  have c: "snd (calculate_output 5 (snd (update_parameters 2 1 2 1 init))) =
    \<lparr>g0 = Some 2, g1 = Some (2 * exp (- 1) * cos 1), g2 = None, alpha = Some 1,
     omega = Some 1, prev_y1 = 10, prev_y2 = 0, prev_x = 5, dt = Some 1\<rparr>"
    by (simp add: u calculate_output_def arith_defs Let_def n)
  have "update_parameters 2 1 2 1 init = (Inr (), snd (update_parameters 2 1 2 1 init))"
    by (simp add: u)
  then have "initialized (snd (update_parameters 2 1 2 1 init))"
    by (rule first_update)
  then have i: "initialized (snd (calculate_output 5 (snd (update_parameters 2 1 2 1 init))))"
    by (rule later_output)
  from calculate_output_recursion_in_range [OF i, of 3] n show ?thesis
    using i by (auto simp: c Let_def)
qed

text \<open>
  C7. A call of \<^verbatim>\<open>calculate_output(x)\<close> that returns \<open>y\<close> changes the state by one
  history shift and nothing else: \<open>prev_y2\<close> becomes the old \<open>prev_y1\<close>, \<open>prev_y1\<close>
  becomes \<open>y\<close>, \<open>prev_x\<close> becomes \<open>x\<close>, and every other attribute (\<open>alpha\<close>,
  \<open>omega\<close>, \<open>g0\<close>, \<open>g1\<close>, \<open>g2\<close>, \<open>dt\<close>) keeps its value. This holds in every
  state in which the call returns, the initialized ones among them.
\<close>

theorem calculate_output_shifts_history:
  assumes "calculate_output x s = (Inr y, s')"
  shows "s' = s\<lparr>prev_y2 := prev_y1 s, prev_y1 := y, prev_x := x\<rparr>"
  using assms
  by (auto simp: calculate_output_def Let_def split: option.splits sum.splits)

text \<open>
  The state below is the filter after \<^verbatim>\<open>update_parameters(2, 1, 2, 1)\<close> and
  \<^verbatim>\<open>calculate_output(5)\<close>; the next call, with input 0, returns \<open>10 exp (- 1) cos 1\<close>
  and shifts the 10 into \<open>prev_y2\<close>.
\<close>

theorem calculate_output_shifts_history_witness:
  "calculate_output 0
       \<lparr>g0 = Some 2, g1 = Some (2 * exp (- 1) * cos 1), g2 = None, alpha = Some 1,
        omega = Some 1, prev_y1 = 10, prev_y2 = 0, prev_x = 5, dt = Some 1\<rparr>
     = (Inr (10 * exp (- 1) * cos 1),
       \<lparr>g0 = Some 2, g1 = Some (2 * exp (- 1) * cos 1), g2 = None, alpha = Some 1,
        omega = Some 1, prev_y1 = 10 * exp (- 1) * cos 1, prev_y2 = 10, prev_x = 0,
        dt = Some 1\<rparr>)"
proof -
  have n: "\<not> overflows (exp (- 1))" "\<not> overflows (exp (- 2))" "\<not> overflows 1"
    by (simp_all add: exp_in_range) (simp add: overflows_def)
  have c: "calculate_output 0
       \<lparr>g0 = Some 2, g1 = Some (2 * exp (- 1) * cos 1), g2 = None, alpha = Some 1,
        omega = Some 1, prev_y1 = 10, prev_y2 = 0, prev_x = 5, dt = Some 1\<rparr>
     = (Inr (10 * exp (- 1) * cos 1), snd (calculate_output 0
       \<lparr>g0 = Some 2, g1 = Some (2 * exp (- 1) * cos 1), g2 = None, alpha = Some 1,
        omega = Some 1, prev_y1 = 10, prev_y2 = 0, prev_x = 5, dt = Some 1\<rparr>))"
    by (simp add: calculate_output_def arith_defs Let_def n)
  from calculate_output_shifts_history [OF c] c show ?thesis by simp
qed

subsection \<open>The derived parameters\<close>

text \<open>
  C2. When \<^verbatim>\<open>update_parameters(b, m, k, dt)\<close> with \<open>m \<noteq> 0\<close> returns normally, the
  state afterwards holds \<open>alpha = b / (2 m)\<close>,
  \<open>omega = sqrt (max 0 (k / m - alpha\<^sup>2))\<close>, \<open>g0 = b / m\<close>, the \<open>dt\<close> passed, and
  \<open>g1 = g0 exp (- alpha dt) cos (omega dt)
        + ((k - b\<^sup>2 / (2 m)) / (m omega)) exp (- alpha dt) sin (omega dt)\<close>.
  A normal return already means that \<open>omega\<close> is not zero, so the value of \<open>g1\<close> needs
  no proviso.
\<close>

theorem update_parameters_stores:
  assumes "m \<noteq> 0" and "update_parameters b m k T s = (Inr (), s')"
  shows "let a = b / (2 * m); w = sqrt (max 0 (k / m - a\<^sup>2)); G0 = b / m
         in alpha s' = Some a \<and> omega s' = Some w \<and> g0 s' = Some G0 \<and> dt s' = Some T
            \<and> w \<noteq> 0
            \<and> g1 s' = Some (G0 * exp (- a * T) * cos (w * T)
                             + ((k - b\<^sup>2 / (2 * m)) / (m * w)) * exp (- a * T) * sin (w * T))"
proof -
  from assms(2) have "fst (update_parameters b m k T s) = Inr ()" by simp
  then have "(b / (2 * m))\<^sup>2 < k / m"
    by (simp add: update_parameters_succeeds_iff)
  then have "sqrt (max 0 (k / m - (b / (2 * m))\<^sup>2)) \<noteq> 0" by simp
  with update_parameters_result [OF assms(2)] show ?thesis
    by (simp add: Let_def)
qed

theorem update_parameters_stores_witness:
  "(1::real) \<noteq> 0
   \<and> update_parameters 2 1 2 1 init =
       (Inr (), \<lparr>g0 = Some 2, g1 = Some (2 * exp (- 1) * cos 1), g2 = None, alpha = Some 1,
                omega = Some 1, prev_y1 = 0, prev_y2 = 0, prev_x = 0, dt = Some 1\<rparr>)
   \<and> alpha (snd (update_parameters 2 1 2 1 init)) = Some (2 / (2 * 1))
   \<and> omega (snd (update_parameters 2 1 2 1 init)) = Some (sqrt (max 0 (2 / 1 - (2 / (2 * 1))\<^sup>2)))
   \<and> g0 (snd (update_parameters 2 1 2 1 init)) = Some (2 / 1)
   \<and> dt (snd (update_parameters 2 1 2 1 init)) = Some 1"
proof -
  have n: "\<not> overflows (exp (- 1))" "\<not> overflows 1" "\<not> overflows 4"
    by (simp_all add: exp_in_range) (simp_all add: overflows_def)
  have u: "update_parameters 2 1 2 1 init =
    (Inr (), \<lparr>g0 = Some 2, g1 = Some (2 * exp (- 1) * cos 1), g2 = None, alpha = Some 1,
             omega = Some 1, prev_y1 = 0, prev_y2 = 0, prev_x = 0, dt = Some 1\<rparr>)"
    by (simp add: update_parameters_def arith_defs Let_def init_def n)
  have m: "(1::real) \<noteq> 0" by simp
  from update_parameters_stores [OF m u] u show ?thesis
    by (simp add: Let_def)
qed

text \<open>
  C8. If \<^verbatim>\<open>update_parameters\<close> succeeds on some arguments, calling it again with the
  same arguments succeeds and leaves the state exactly as the first call left it, so
  \<open>alpha\<close>, \<open>omega\<close>, \<open>g0\<close>, \<open>g1\<close> and \<open>dt\<close> are those of a single call; and the
  history \<open>prev_y1\<close>, \<open>prev_y2\<close>, \<open>prev_x\<close> is the one from before the first call.
\<close>

theorem update_parameters_idempotent:
  assumes "update_parameters b m k T s = (Inr (), s1)"
  shows "update_parameters b m k T s1 = (Inr (), s1)
         \<and> prev_y1 s1 = prev_y1 s \<and> prev_y2 s1 = prev_y2 s \<and> prev_x s1 = prev_x s"
proof -
  from assms have "fst (update_parameters b m k T s) = Inr ()" by simp
  then have "fst (update_parameters b m k T s1) = Inr ()"
    unfolding update_parameters_succeeds_iff .
  then obtain s2 where s2: "update_parameters b m k T s1 = (Inr (), s2)"
    by (metis prod.collapse)
  have "s2 = s1"
    by (simp add: update_parameters_result [OF s2] update_parameters_result [OF assms])
  with s2 update_parameters_result [OF assms] show ?thesis by simp
qed

theorem update_parameters_idempotent_witness:
  "update_parameters 2 1 2 1 init = (Inr (), snd (update_parameters 2 1 2 1 init))
   \<and> update_parameters 2 1 2 1 (snd (update_parameters 2 1 2 1 init))
       = (Inr (), snd (update_parameters 2 1 2 1 init))
   \<and> prev_y1 (snd (update_parameters 2 1 2 1 init)) = prev_y1 init"
proof -
  have n: "\<not> overflows (exp (- 1))" "\<not> overflows 1" "\<not> overflows 4"
    by (simp_all add: exp_in_range) (simp_all add: overflows_def)
  have u: "update_parameters 2 1 2 1 init = (Inr (), snd (update_parameters 2 1 2 1 init))"
    by (simp add: update_parameters_def arith_defs Let_def init_def n)
  from update_parameters_idempotent [OF u] u show ?thesis by simp
qed

subsection \<open>When update_parameters raises\<close>

text \<open>
  Whenever the clamp makes \<open>omega\<close> zero (and nothing overflows before), the divisor
  \<^verbatim>\<open>m * self.omega\<close> in the expression for \<^verbatim>\<open>self.g1\<close> is zero: the method raises
  \<^verbatim>\<open>ZeroDivisionError\<close> after it has assigned \<open>alpha\<close>, \<open>omega\<close> and \<open>g0\<close>, and before
  it assigns \<open>g1\<close> and \<open>dt\<close>.
\<close>

lemma update_parameters_zero_omega_raises:
  assumes "m \<noteq> 0" and "k / m \<le> (b / (2 * m))\<^sup>2"
    and "\<not> overflows ((b / (2 * m))\<^sup>2)" "\<not> overflows (b\<^sup>2)"
    "\<not> overflows (exp (- (b / (2 * m)) * T))"
  shows "update_parameters b m k T s
           = (Inl ZeroDivisionError,
              s\<lparr>alpha := Some (b / (2 * m)), omega := Some 0, g0 := Some (b / m)\<rparr>)"
  using assms
  by (simp add: update_parameters_def arith_defs Let_def max_def) (simp add: overflows_def)

text \<open>
  C3. The claim is that a call whose clamp gives \<open>omega = 0\<close> still succeeds and stores
  the limit of the \<open>g1\<close> formula. The code does not: at critical damping,
  \<^verbatim>\<open>update_parameters(2, 1, 1, 1)\<close> on a fresh filter (\<open>alpha = 1\<close>,
  \<open>k / m - alpha\<^sup>2 = 0\<close>), it raises \<^verbatim>\<open>ZeroDivisionError\<close> and stores no \<open>g1\<close>.
\<close>

theorem update_parameters_critical_damping_raises:
  "update_parameters 2 1 1 1 init
     = (Inl ZeroDivisionError, init\<lparr>alpha := Some 1, omega := Some 0, g0 := Some 2\<rparr>)"
proof -
  have n: "\<not> overflows (exp (- 1))" "\<not> overflows 1" "\<not> overflows 4" "\<not> overflows 0"
    by (simp_all add: exp_in_range) (simp_all add: overflows_def)
  show ?thesis
    by (simp add: update_parameters_def arith_defs Let_def init_def n)
qed


text \<open>
  C5, as stated: \<^verbatim>\<open>update_parameters\<close> raises exactly when \<open>m = 0\<close> or \<open>dt \<le> 0\<close>.
  It fails at \<^verbatim>\<open>update_parameters(1, 1, 10, 0)\<close> on a fresh filter: the sample period
  is zero, the mass is not, and the call returns normally. The method never tests
  \<^verbatim>\<open>dt\<close>.
\<close>

theorem update_parameters_accepts_zero_dt:
  "(0::real) \<le> 0 \<and> (1::real) \<noteq> 0 \<and> fst (update_parameters 1 1 10 0 init) = Inr ()"
proof -
  have n: "\<not> overflows 1" "\<not> overflows 0" "\<not> overflows (1 / 4)"
    by (simp_all add: overflows_def)
  show ?thesis
    by (simp add: update_parameters_succeeds_iff power2_eq_square n)
qed

text \<open>
  C5, amended. \<^verbatim>\<open>update_parameters(b, m, k, dt)\<close> raises (a \<^verbatim>\<open>ZeroDivisionError\<close>,
  with the state untouched) whenever \<open>m = 0\<close>. It makes no test of \<open>dt\<close> and none of
  the sign of \<open>b\<close>: whenever a call returns normally, the same call with \<open>dt = 0\<close>
  returns normally too; and if moreover \<open>b / (2 m) * dt \<le> 600\<close>, so that \<^verbatim>\<open>math.exp\<close>
  stays in range, so do the same call with \<open>dt\<close> negated and the same call with \<open>b\<close>
  negated.
\<close>

theorem update_parameters_never_tests_dt:
  "(m = 0 \<longrightarrow> update_parameters b m k T s = (Inl ZeroDivisionError, s))
   \<and> (fst (update_parameters b m k T s) = Inr ()
        \<longrightarrow> fst (update_parameters b m k 0 s) = Inr ())
   \<and> (fst (update_parameters b m k T s) = Inr () \<and> b / (2 * m) * T \<le> 600
        \<longrightarrow> fst (update_parameters b m k (- T) s) = Inr ()
            \<and> fst (update_parameters (- b) m k T s) = Inr ())"
proof (intro conjI impI)
  assume "m = 0"
  then show "update_parameters b m k T s = (Inl ZeroDivisionError, s)"
    by (simp add: update_parameters_def truediv_def)
next
  have z: "\<not> overflows 1" "\<not> overflows 0" by (simp_all add: overflows_def)
  assume "fst (update_parameters b m k T s) = Inr ()"
  then show "fst (update_parameters b m k 0 s) = Inr ()"
    by (simp add: update_parameters_succeeds_iff z)
next
  assume a: "fst (update_parameters b m k T s) = Inr () \<and> b / (2 * m) * T \<le> 600"
  then have ok: "m \<noteq> 0 \<and> (b / (2 * m))\<^sup>2 < k / m
     \<and> \<not> overflows ((b / (2 * m))\<^sup>2) \<and> \<not> overflows (b\<^sup>2)
     \<and> \<not> overflows (exp (- (b / (2 * m)) * T))
     \<and> \<not> overflows (sqrt (max 0 (k / m - (b / (2 * m))\<^sup>2)) * T)"
    unfolding update_parameters_succeeds_iff by blast
  from a have e: "\<not> overflows (exp (b / (2 * m) * T))" by (simp add: exp_in_range)
  have t1: "- (b / (2 * m)) * - T = b / (2 * m) * T" by simp
  have t2: "overflows (w * - T) = overflows (w * T)" for w
    by (simp add: overflows_def abs_mult)
  have b1: "(- b / (2 * m))\<^sup>2 = (b / (2 * m))\<^sup>2" "(- b)\<^sup>2 = b\<^sup>2"
    "- (- b / (2 * m)) * T = b / (2 * m) * T"
    by simp_all
  show "fst (update_parameters b m k (- T) s) = Inr ()"
    unfolding update_parameters_succeeds_iff t1 t2 using ok e by blast
  show "fst (update_parameters (- b) m k T s) = Inr ()"
    unfolding update_parameters_succeeds_iff b1 using ok e by blast
qed

theorem update_parameters_never_tests_dt_witness:
  "update_parameters 2 0 2 1 init = (Inl ZeroDivisionError, init)
   \<and> fst (update_parameters 2 1 2 1 init) = Inr ()
   \<and> (2::real) / (2 * 1) * 1 \<le> 600
   \<and> fst (update_parameters 2 1 2 0 init) = Inr ()
   \<and> fst (update_parameters 2 1 2 (- 1) init) = Inr ()
   \<and> fst (update_parameters (- 2) 1 2 1 init) = Inr ()"
proof -
  have n: "\<not> overflows (exp (- 1))" "\<not> overflows 1" "\<not> overflows 4"
    by (simp_all add: exp_in_range) (simp_all add: overflows_def)
  have u: "fst (update_parameters 2 1 2 1 init) = Inr ()"
    by (simp add: update_parameters_succeeds_iff n)
  from update_parameters_never_tests_dt [where m = 0 and b = 2 and k = 2 and T = 1 and s = init]
    update_parameters_never_tests_dt [where m = 1 and b = 2 and k = 2 and T = 1 and s = init]
    u
  show ?thesis by simp
qed

subsection \<open>Totality of calculate_output\<close>

text \<open>
  C10, as stated: on every finite stored state and every finite input,
  \<^verbatim>\<open>calculate_output\<close> returns a value and raises no arithmetic error. It fails on the
  state with \<open>alpha = -400\<close>, \<open>omega = 200\<close>, \<open>g0 = -800\<close>, \<open>g1 = 0\<close>, \<open>dt = 1\<close> and
  an all-zero history, every attribute a finite number: for the input 0 the call raises
  \<^verbatim>\<open>OverflowError\<close> at \<^verbatim>\<open>math.exp(-2 * self.alpha * self.dt)\<close>, which is \<^verbatim>\<open>math.exp(800)\<close>.
\<close>

theorem calculate_output_raises_on_finite_state:
  "parameters_set
     \<lparr>g0 = Some (- 800), g1 = Some 0, g2 = None, alpha = Some (- 400), omega = Some 200,
      prev_y1 = 0, prev_y2 = 0, prev_x = 0, dt = Some 1\<rparr>
   \<and> calculate_output 0
       \<lparr>g0 = Some (- 800), g1 = Some 0, g2 = None, alpha = Some (- 400), omega = Some 200,
        prev_y1 = 0, prev_y2 = 0, prev_x = 0, dt = Some 1\<rparr>
     = (Inl OverflowError,
       \<lparr>g0 = Some (- 800), g1 = Some 0, g2 = None, alpha = Some (- 400), omega = Some 200,
        prev_y1 = 0, prev_y2 = 0, prev_x = 0, dt = Some 1\<rparr>)"
proof -
  have n: "\<not> overflows (exp 400)" "overflows (exp 800)" "\<not> overflows 200"
    by (simp_all add: exp_in_range exp_out_of_range) (simp add: overflows_def)
  show ?thesis
    by (simp add: parameters_set_def calculate_output_def arith_defs n)
qed

text \<open>
  C10, amended. Once all the parameters are set, \<^verbatim>\<open>calculate_output\<close> has no division
  and no operation that can fail other than \<^verbatim>\<open>math.exp\<close> and \<^verbatim>\<open>math.cos\<close>: for every
  such state and every input it returns a value and shifts the history, provided that
  neither \<open>exp (- alpha dt)\<close> nor \<open>exp (- 2 alpha dt)\<close> nor the product \<open>omega dt\<close>
  overflows a double.
\<close>

theorem calculate_output_returns_in_range:
  assumes "parameters_set s"
    and "alpha s = Some a" "omega s = Some w" "dt s = Some T"
    and "\<not> overflows (exp (- a * T))" "\<not> overflows (w * T)"
      "\<not> overflows (exp (- 2 * a * T))"
  shows "\<exists>y. calculate_output x s
              = (Inr y, s\<lparr>prev_y2 := prev_y1 s, prev_y1 := y, prev_x := x\<rparr>)"
proof -
  from assms(1) obtain G0 G1 where "g0 s = Some G0" "g1 s = Some G1"
    unfolding parameters_set_def by auto
  from calculate_output_in_range [OF assms(2,3) this assms(4-7)]
  show ?thesis by blast
qed

theorem calculate_output_returns_in_range_witness:
  "parameters_set
     \<lparr>g0 = Some 2, g1 = Some 7, g2 = None, alpha = Some (- 300), omega = Some 200,
      prev_y1 = 3, prev_y2 = 4, prev_x = 1, dt = Some 1\<rparr>
   \<and> \<not> overflows (exp (- (- 300) * 1)) \<and> \<not> overflows (200 * 1)
   \<and> \<not> overflows (exp (- 2 * (- 300) * 1))
   \<and> (\<exists>y. fst (calculate_output 5
       \<lparr>g0 = Some 2, g1 = Some 7, g2 = None, alpha = Some (- 300), omega = Some 200,
        prev_y1 = 3, prev_y2 = 4, prev_x = 1, dt = Some 1\<rparr>) = Inr y)"
proof -
  have n: "\<not> overflows (exp (- (- 300) * 1))" "\<not> overflows (200 * 1)"
    "\<not> overflows (exp (- 2 * (- 300) * 1))"
    by (simp_all add: exp_in_range) (simp add: overflows_def)
  have p: "parameters_set
     \<lparr>g0 = Some 2, g1 = Some 7, g2 = None, alpha = Some (- 300), omega = Some 200,
      prev_y1 = 3, prev_y2 = 4, prev_x = 1, dt = Some 1\<rparr>"
    by (simp add: parameters_set_def)
  from calculate_output_returns_in_range [OF p _ _ _ n, of 5] obtain y where
    "calculate_output 5
       \<lparr>g0 = Some 2, g1 = Some 7, g2 = None, alpha = Some (- 300), omega = Some 200,
        prev_y1 = 3, prev_y2 = 4, prev_x = 1, dt = Some 1\<rparr>
     = (Inr y, \<lparr>g0 = Some 2, g1 = Some 7, g2 = None, alpha = Some (- 300), omega = Some 200,
        prev_y1 = 3, prev_y2 = 4, prev_x = 1, dt = Some 1\<rparr>
          \<lparr>prev_y2 := 3, prev_y1 := y, prev_x := 5\<rparr>)"
    by auto
  then have "\<exists>y. fst (calculate_output 5
       \<lparr>g0 = Some 2, g1 = Some 7, g2 = None, alpha = Some (- 300), omega = Some 200,
        prev_y1 = 3, prev_y2 = 4, prev_x = 1, dt = Some 1\<rparr>) = Inr y"
    by (metis fst_conv)
  with p n show ?thesis by blast
qed

subsection \<open>The two definitions of the class\<close>

text \<open>
  C9. The class of \<^verbatim>\<open>cart.py\<close> and the class of \<^verbatim>\<open>RecursiveConvolution.py\<close> behave
  alike: their constructors build the same state, and from the same state and
  arguments \<^verbatim>\<open>update_parameters\<close> and \<^verbatim>\<open>calculate_output\<close> give the same result
  (value or exception) and the same successor state.
\<close>

theorem cart_class_same_behaviour:
  "cart_init = init
   \<and> cart_update_parameters b m k T s = update_parameters b m k T s
   \<and> cart_calculate_output x s = calculate_output x s"
  by (simp add: cart_init_def init_def cart_update_parameters_def update_parameters_def
      cart_calculate_output_def calculate_output_def)

end
